theory Spec2Isabelle
  imports Main
begin

section \<open>Values of the JavaScript runtime\<close>

text \<open>
  Payloads typed \<open>unknown\<close> in the source are JSON values. The client never computes with
  a number; only the truthiness of a value is ever read (\<open>!!capabilities?.tools\<close>).
\<close>

datatype json =
    JNull
  | JBool bool
  | JNumber int
  | JString string
  | JArray "json list"
  | JObject "(string \<times> json) list"

text \<open>\<open>if (v)\<close> and \<open>!!v\<close> on a JSON value: objects and arrays are always truthy.\<close>

fun truthy :: "json \<Rightarrow> bool" where
  "truthy JNull = False"
| "truthy (JBool b) = b"
| "truthy (JNumber n) = (n \<noteq> 0)"
| "truthy (JString s) = (s \<noteq> [])"
| "truthy (JArray xs) = True"
| "truthy (JObject kvs) = True"

text \<open>
  \<open>if (config.sseUrl)\<close> on an optional string: \<open>undefined\<close> and the empty string are
  falsy, every other string is truthy.
\<close>

fun truthy_string :: "string option \<Rightarrow> bool" where
  "truthy_string None = False"
| "truthy_string (Some s) = (s \<noteq> [])"

text \<open>\<open>if (this.config.debug)\<close> on an optional boolean.\<close>

fun truthy_bool :: "bool option \<Rightarrow> bool" where
  "truthy_bool None = False"
| "truthy_bool (Some b) = b"

text \<open>
  A thrown value is an error object with a name and a message. \<open>new Error(m)\<close> has the
  name \<open>Error\<close>; the SDK and the runtime throw objects of other names (\<open>TypeError\<close>,
  \<open>McpError\<close>).
\<close>

datatype thrown = ErrorObject (error_name: string) (error_message: string)

definition new_Error :: "string \<Rightarrow> thrown" where
  "new_Error m = ErrorObject ''Error'' m"

text \<open>
  The template literal \<open>`${error}`\<close> calls \<open>Error.prototype.toString\<close>: the name alone
  when the message is empty, the message alone when the name is empty, and
  \<open>name: message\<close> otherwise.
\<close>

fun error_toString :: "thrown \<Rightarrow> string" where
  "error_toString (ErrorObject n m) =
     (if n = [] then m else if m = [] then n else n @ '': '' @ m)"

section \<open>types.ts\<close>

record MCPClientConfig =
  command :: "string option"
  args :: "string list option"
  env :: "(string \<times> string) list option"
  sseUrl :: "string option"
  timeout :: "int option"
  debug :: "bool option"

text \<open>
  The schema object of a tool. The source casts the SDK's object to this shape without
  copying it, so whatever further fields the object carries stay on it (\<open>schema_rest\<close>).
\<close>

record InputSchema =
  schema_type :: string
  properties :: "(string \<times> json) list option"
  required :: "string list option"
  schema_rest :: "(string \<times> json) list"

record MCPTool =
  name :: string
  description :: "string option"
  inputSchema :: InputSchema

record MCPResource =
  uri :: string
  name :: string
  description :: "string option"
  mimeType :: "string option"

record PromptArgument =
  name :: string
  description :: "string option"
  required :: "bool option"

record MCPPrompt =
  name :: string
  description :: "string option"
  arguments :: "PromptArgument list option"

text \<open>
  A content block. \<open>type\<close> is the string the server sent (the cast to
  \<open>'text' | 'image' | 'resource'\<close> checks nothing at run time); \<open>block_rest\<close> holds the
  fields the object carries beyond the declared ones.
\<close>

record ContentBlock =
  "type" :: string
  "text" :: "string option"
  data :: "string option"
  mimeType :: "string option"
  block_rest :: "(string \<times> json) list"

record ToolCallResult =
  content :: "ContentBlock list"
  isError :: "bool option"

record ServerCapabilities =
  tools :: "bool option"
  resources :: "bool option"
  prompts :: "bool option"

datatype TransportType = stdio | sse

fun TransportType_string :: "TransportType \<Rightarrow> string" where
  "TransportType_string stdio = ''stdio''"
| "TransportType_string sse = ''sse''"

section \<open>The wrapped SDK\<close>

text \<open>
  The SDK is not part of the repository. Its objects are modelled with the fields the
  client reads; a descriptor of the SDK extends the client's record by the fields the
  client does not copy.
\<close>

record SdkClient =
  client_name :: string
  client_version :: string
  client_capabilities :: "(string \<times> json) list"

datatype Transport =
    StdioClientTransport "string option" "string list option" "(string \<times> string) list option"
  | SSEClientTransport string

record SdkServerCapabilities =
  sdk_tools :: "json option"
  sdk_resources :: "json option"
  sdk_prompts :: "json option"

record SdkTool = MCPTool +
  tool_rest :: "(string \<times> json) list"

record SdkResource = MCPResource +
  resource_rest :: "(string \<times> json) list"

record SdkPrompt = MCPPrompt +
  prompt_rest :: "(string \<times> json) list"

record SdkCallToolResult = ToolCallResult +
  result_rest :: "(string \<times> json) list"

record ResourceContents =
  uri :: string
  mimeType :: "string option"
  "text" :: "string option"
  blob :: "string option"

text \<open>
  The content of a prompt message. The protocol gives every message one content-block
  object (\<open>ContentObject\<close>), and this is what the SDK resolves to. The expression in
  \<open>getPrompt\<close> has a branch for a string and treats everything else as an array of
  blocks, so these two shapes are values of the type as well.
\<close>

datatype MessageContent =
    ContentString string
  | ContentArray "ContentBlock list"
  | ContentObject ContentBlock

record SdkPromptMessage =
  role :: string
  content :: MessageContent

record SdkGetPromptResult =
  description :: "string option"
  messages :: "SdkPromptMessage list"

text \<open>
  What the SDK and the runtime answer when called: a rejected promise or a throw is
  \<open>Inl\<close>, a resolved one \<open>Inr\<close> (\<open>Some\<close> and \<open>None\<close> for calls that resolve to nothing).
  Every operation takes the answers valid at the time of its call, so two calls in a
  row may meet different answers.
\<close>

record Sdk =
  new_URL :: "string \<Rightarrow> thrown + string"
  client_connect :: "Transport \<Rightarrow> thrown option"
  client_getServerCapabilities :: "SdkServerCapabilities option"
  client_close :: "thrown option"
  client_listTools :: "thrown + SdkTool list"
  client_callTool :: "string \<Rightarrow> (string \<times> json) list \<Rightarrow> thrown + SdkCallToolResult"
  client_listResources :: "thrown + SdkResource list"
  client_readResource :: "string \<Rightarrow> thrown + ResourceContents list"
  client_listPrompts :: "thrown + SdkPrompt list"
  client_getPrompt :: "string \<Rightarrow> (string \<times> string) list \<Rightarrow> thrown + SdkGetPromptResult"

text \<open>
  The effects of an operation, in order: requests handed to the SDK and debug lines.
  \<open>getServerCapabilities\<close> reads what the SDK already holds and is no request.
\<close>

datatype request =
    Connect Transport
  | Close
  | ListTools
  | CallTool string "(string \<times> json) list"
  | ListResources
  | ReadResource string
  | ListPrompts
  | GetPrompt string "(string \<times> string) list"

datatype effect = Request request | ConsoleLog string "json list"

section \<open>client.ts\<close>

record MCPClient =
  client :: SdkClient
  transport :: "Transport option"
  config :: MCPClientConfig
  connected :: bool
  transportType :: TransportType

text \<open>
  An operation returns what it resolves to or throws (\<open>result\<close>), the client as it is
  afterwards (\<open>after\<close>) and the effects it had (\<open>effects\<close>).
\<close>

record 'a outcome =
  result :: "thrown + 'a"
  after :: MCPClient
  effects :: "effect list"

text \<open>
  The source raises plain \<open>Error\<close> objects, told apart by their messages. The error kinds
  of the specification denote them as follows.
\<close>

definition ConfigurationError :: thrown where
  "ConfigurationError = new_Error ''Must provide either command (stdio) or sseUrl (SSE)''"

definition AlreadyConnectedError :: thrown where
  "AlreadyConnectedError = new_Error ''Already connected''"

definition NotConnectedError :: thrown where
  "NotConnectedError = new_Error ''Not connected to MCP server. Call connect() first.''"

definition UnsupportedContentError :: thrown where
  "UnsupportedContentError = new_Error ''Resource content not available as text''"

definition ConnectionError :: "thrown \<Rightarrow> thrown" where
  "ConnectionError cause = new_Error (''Failed to connect: '' @ error_toString cause)"

definition DisconnectError :: "thrown \<Rightarrow> thrown" where
  "DisconnectError cause = new_Error (''Failed to disconnect: '' @ error_toString cause)"

definition new_Client :: SdkClient where
  "new_Client = \<lparr>client_name = ''mcp-client-example'', client_version = ''1.0.0'',
                  client_capabilities = []\<rparr>"

text \<open>
  The constructor. The spread \<open>{timeout: 30000, debug: false, ...config}\<close> keeps the
  defaults where the config leaves the option out. \<open>sseUrl\<close> is tested first.
\<close>

definition MCPClient_constructor :: "MCPClientConfig \<Rightarrow> thrown + MCPClient" where
  "MCPClient_constructor cfg =
     (let merged = cfg\<lparr>timeout := (case timeout cfg of None \<Rightarrow> Some 30000 | Some t \<Rightarrow> Some t),
                       debug := (case debug cfg of None \<Rightarrow> Some False | Some d \<Rightarrow> Some d)\<rparr>
      in if truthy_string (sseUrl cfg) then
           Inr \<lparr>client = new_Client, transport = None, config = merged,
                connected = False, transportType = sse\<rparr>
         else if truthy_string (command cfg) then
           Inr \<lparr>client = new_Client, transport = None, config = merged,
                connected = False, transportType = stdio\<rparr>
         else Inl ConfigurationError)"

definition isConnected :: "MCPClient \<Rightarrow> bool" where
  "isConnected c = connected c"

definition getTransportType :: "MCPClient \<Rightarrow> TransportType" where
  "getTransportType c = transportType c"

definition ensureConnected :: "MCPClient \<Rightarrow> thrown + unit" where
  "ensureConnected c = (if \<not> connected c then Inl NotConnectedError else Inr ())"

text \<open>
  \<open>new URL(this.config.sseUrl!)\<close>: the non-null assertion checks nothing, and the URL
  constructor reads its argument as a string (\<open>undefined\<close> as \<open>"undefined"\<close>).
\<close>

definition new_transport :: "Sdk \<Rightarrow> MCPClient \<Rightarrow> thrown + Transport" where
  "new_transport e c =
     (if transportType c = stdio then
        Inr (StdioClientTransport (command (config c)) (args (config c)) (env (config c)))
      else
        (case new_URL e (case sseUrl (config c) of None \<Rightarrow> ''undefined'' | Some u \<Rightarrow> u) of
           Inl err \<Rightarrow> Inl err
         | Inr url \<Rightarrow> Inr (SSEClientTransport url)))"

text \<open>The \<open>catch\<close> block of \<open>connect\<close>.\<close>

definition connect_catch :: "thrown \<Rightarrow> MCPClient \<Rightarrow> effect list \<Rightarrow> ServerCapabilities outcome" where
  "connect_catch err c es =
     \<lparr>result = Inl (ConnectionError err), after = c\<lparr>connected := False\<rparr>, effects = es\<rparr>"

definition connect :: "Sdk \<Rightarrow> MCPClient \<Rightarrow> ServerCapabilities outcome" where
  "connect e c =
     (if connected c then \<lparr>result = Inl AlreadyConnectedError, after = c, effects = []\<rparr>
      else
        (case new_transport e c of
           Inl err \<Rightarrow> connect_catch err c []
         | Inr t \<Rightarrow>
             (let c1 = c\<lparr>transport := Some t\<rparr> in
              case client_connect e t of
                Some err \<Rightarrow> connect_catch err c1 [Request (Connect t)]
              | None \<Rightarrow>
                  (let capabilities = client_getServerCapabilities e in
                   \<lparr>result = Inr \<lparr>tools = Some (case capabilities of None \<Rightarrow> False
                                       | Some cs \<Rightarrow> (case sdk_tools cs of None \<Rightarrow> False | Some v \<Rightarrow> truthy v)),
                                   resources = Some (case capabilities of None \<Rightarrow> False
                                       | Some cs \<Rightarrow> (case sdk_resources cs of None \<Rightarrow> False | Some v \<Rightarrow> truthy v)),
                                   prompts = Some (case capabilities of None \<Rightarrow> False
                                       | Some cs \<Rightarrow> (case sdk_prompts cs of None \<Rightarrow> False | Some v \<Rightarrow> truthy v))\<rparr>,
                     after = c1\<lparr>connected := True\<rparr>,
                     effects = Request (Connect t) #
                       (if truthy_bool (debug (config c)) then
                          [ConsoleLog (''[MCP Client] Connected via '' @ TransportType_string (transportType c)) []]
                        else [])\<rparr>))))"

definition disconnect :: "Sdk \<Rightarrow> MCPClient \<Rightarrow> unit outcome" where
  "disconnect e c =
     (if \<not> connected c then \<lparr>result = Inr (), after = c, effects = []\<rparr>
      else
        (case client_close e of
           Some err \<Rightarrow> \<lparr>result = Inl (DisconnectError err), after = c, effects = [Request Close]\<rparr>
         | None \<Rightarrow>
             \<lparr>result = Inr (), after = c\<lparr>connected := False\<rparr>,
              effects = Request Close #
                (if truthy_bool (debug (config c)) then [ConsoleLog ''[MCP Client] Disconnected'' []]
                 else [])\<rparr>))"

text \<open>
  The typed operations. Each checks the connection first, hands one request to the SDK
  and maps the response; a rejection of the SDK is passed on as it is. The SDK's
  response objects \<open>{tools}\<close>, \<open>{resources}\<close>, \<open>{contents}\<close> and \<open>{prompts}\<close> are
  modelled by the list they hold.
\<close>

definition listTools :: "Sdk \<Rightarrow> MCPClient \<Rightarrow> MCPTool list outcome" where
  "listTools e c =
     (case ensureConnected c of
        Inl err \<Rightarrow> \<lparr>result = Inl err, after = c, effects = []\<rparr>
      | Inr _ \<Rightarrow>
          (case client_listTools e of
             Inl err \<Rightarrow> \<lparr>result = Inl err, after = c, effects = [Request ListTools]\<rparr>
           | Inr response \<Rightarrow>
               \<lparr>result = Inr (map (\<lambda>tool. \<lparr>MCPTool.name = MCPTool.name tool,
                                             MCPTool.description = MCPTool.description tool,
                                             MCPTool.inputSchema = MCPTool.inputSchema tool\<rparr>) response),
                after = c, effects = [Request ListTools]\<rparr>))"

text \<open>A parameter \<open>args = {}\<close>: the empty object when the caller leaves it out.\<close>

fun or_empty :: "'a list option \<Rightarrow> 'a list" where
  "or_empty None = []"
| "or_empty (Some a) = a"

definition callTool ::
    "Sdk \<Rightarrow> string \<Rightarrow> (string \<times> json) list option \<Rightarrow> MCPClient \<Rightarrow> ToolCallResult outcome" where
  "callTool e nm args_opt c =
     (let as = or_empty args_opt in
      case ensureConnected c of
        Inl err \<Rightarrow> \<lparr>result = Inl err, after = c, effects = []\<rparr>
      | Inr _ \<Rightarrow>
          (let logged = (if truthy_bool (debug (config c))
                         then [ConsoleLog (''[MCP Client] Calling tool: '' @ nm) [JObject as]]
                         else [])
           in case client_callTool e nm as of
                Inl err \<Rightarrow> \<lparr>result = Inl err, after = c, effects = logged @ [Request (CallTool nm as)]\<rparr>
              | Inr response \<Rightarrow>
                  \<lparr>result = Inr \<lparr>ToolCallResult.content = ToolCallResult.content response,
                                  ToolCallResult.isError = ToolCallResult.isError response\<rparr>,
                   after = c, effects = logged @ [Request (CallTool nm as)]\<rparr>))"

definition listResources :: "Sdk \<Rightarrow> MCPClient \<Rightarrow> MCPResource list outcome" where
  "listResources e c =
     (case ensureConnected c of
        Inl err \<Rightarrow> \<lparr>result = Inl err, after = c, effects = []\<rparr>
      | Inr _ \<Rightarrow>
          (case client_listResources e of
             Inl err \<Rightarrow> \<lparr>result = Inl err, after = c, effects = [Request ListResources]\<rparr>
           | Inr response \<Rightarrow>
               \<lparr>result = Inr (map (\<lambda>resource. \<lparr>MCPResource.uri = MCPResource.uri resource,
                                                 MCPResource.name = MCPResource.name resource,
                                                 MCPResource.description = MCPResource.description resource,
                                                 MCPResource.mimeType = MCPResource.mimeType resource\<rparr>) response),
                after = c, effects = [Request ListResources]\<rparr>))"

text \<open>
  \<open>response.contents[0]\<close> is \<open>undefined\<close> on an empty array; \<open>content && 'text' in content\<close>
  then fails as it does for an entry without a \<open>text\<close> property. Only the first entry is
  looked at.
\<close>

definition readResource :: "Sdk \<Rightarrow> string \<Rightarrow> MCPClient \<Rightarrow> string outcome" where
  "readResource e u c =
     (case ensureConnected c of
        Inl err \<Rightarrow> \<lparr>result = Inl err, after = c, effects = []\<rparr>
      | Inr _ \<Rightarrow>
          (case client_readResource e u of
             Inl err \<Rightarrow> \<lparr>result = Inl err, after = c, effects = [Request (ReadResource u)]\<rparr>
           | Inr contents \<Rightarrow>
               \<lparr>result = (case contents of
                            [] \<Rightarrow> Inl UnsupportedContentError
                          | content0 # _ \<Rightarrow>
                              (case ResourceContents.text content0 of
                                 Some t \<Rightarrow> Inr t
                               | None \<Rightarrow> Inl UnsupportedContentError)),
                after = c, effects = [Request (ReadResource u)]\<rparr>))"

definition listPrompts :: "Sdk \<Rightarrow> MCPClient \<Rightarrow> MCPPrompt list outcome" where
  "listPrompts e c =
     (case ensureConnected c of
        Inl err \<Rightarrow> \<lparr>result = Inl err, after = c, effects = []\<rparr>
      | Inr _ \<Rightarrow>
          (case client_listPrompts e of
             Inl err \<Rightarrow> \<lparr>result = Inl err, after = c, effects = [Request ListPrompts]\<rparr>
           | Inr response \<Rightarrow>
               \<lparr>result = Inr (map (\<lambda>prompt. \<lparr>MCPPrompt.name = MCPPrompt.name prompt,
                                               MCPPrompt.description = MCPPrompt.description prompt,
                                               MCPPrompt.arguments = MCPPrompt.arguments prompt\<rparr>) response),
                after = c, effects = [Request ListPrompts]\<rparr>))"

record PromptMessage =
  role :: string
  content :: string

record PromptResult =
  description :: "string option"
  messages :: "PromptMessage list"

text \<open>
  The content of one message:
  \<open>typeof msg.content === 'string' ? msg.content
     : msg.content.map((c) => ('text' in c ? c.text : '')).join('')\<close>.
  A content-block object is no string and has no \<open>map\<close> method, so the call of
  \<open>msg.content.map\<close> throws a \<open>TypeError\<close>.
\<close>

definition block_text :: "ContentBlock \<Rightarrow> string" where
  "block_text c = (case ContentBlock.text c of Some t \<Rightarrow> t | None \<Rightarrow> [])"

definition map_is_not_a_function :: thrown where
  "map_is_not_a_function = ErrorObject ''TypeError'' ''msg.content.map is not a function''"

fun message_content :: "MessageContent \<Rightarrow> thrown + string" where
  "message_content (ContentString s) = Inr s"
| "message_content (ContentArray cs) = Inr (concat (map block_text cs))"
| "message_content (ContentObject b) = Inl map_is_not_a_function"

text \<open>
  \<open>response.messages.map((msg) => ({role: msg.role, content: ...}))\<close>: the messages are
  mapped in order, and the first throw ends the whole call.
\<close>

fun map_messages :: "SdkPromptMessage list \<Rightarrow> thrown + PromptMessage list" where
  "map_messages [] = Inr []"
| "map_messages (msg # rest) =
     (case message_content (SdkPromptMessage.content msg) of
        Inl err \<Rightarrow> Inl err
      | Inr s \<Rightarrow>
          (case map_messages rest of
             Inl err \<Rightarrow> Inl err
           | Inr out \<Rightarrow>
               Inr (\<lparr>PromptMessage.role = SdkPromptMessage.role msg,
                     PromptMessage.content = s\<rparr> # out)))"

definition getPrompt ::
    "Sdk \<Rightarrow> string \<Rightarrow> (string \<times> string) list option \<Rightarrow> MCPClient \<Rightarrow> PromptResult outcome" where
  "getPrompt e nm args_opt c =
     (let as = or_empty args_opt in
      case ensureConnected c of
        Inl err \<Rightarrow> \<lparr>result = Inl err, after = c, effects = []\<rparr>
      | Inr _ \<Rightarrow>
          (case client_getPrompt e nm as of
             Inl err \<Rightarrow> \<lparr>result = Inl err, after = c, effects = [Request (GetPrompt nm as)]\<rparr>
           | Inr response \<Rightarrow>
               \<lparr>result =
                  (case map_messages (SdkGetPromptResult.messages response) of
                     Inl err \<Rightarrow> Inl err
                   | Inr out \<Rightarrow>
                       Inr \<lparr>PromptResult.description = SdkGetPromptResult.description response,
                            PromptResult.messages = out\<rparr>),
                after = c, effects = [Request (GetPrompt nm as)]\<rparr>))"

section \<open>The flattening of prompt content, as the specification words it\<close>

text \<open>
  A text block is a block that carries a \<open>text\<close> property. A string is its own
  flattening; structured content, whether one block or an array of blocks, flattens to
  the concatenation, in order, of the texts of its text blocks.
\<close>

fun flattened :: "MessageContent \<Rightarrow> string" where
  "flattened (ContentString s) = s"
| "flattened (ContentArray cs) = concat (List.map_filter ContentBlock.text cs)"
| "flattened (ContentObject b) = concat (List.map_filter ContentBlock.text [b])"

section \<open>Concrete clients and servers\<close>

definition sse_config :: MCPClientConfig where
  "sse_config = \<lparr>command = None, args = None, env = None,
                  sseUrl = Some ''http://localhost:3000/mcp'', timeout = None, debug = Some True\<rparr>"

definition both_config :: MCPClientConfig where
  "both_config = sse_config\<lparr>command := Some ''node''\<rparr>"

definition empty_config :: MCPClientConfig where
  "empty_config = \<lparr>command = None, args = None, env = None, sseUrl = None,
                    timeout = None, debug = None\<rparr>"

text \<open>A process-transport client as the README constructs it, and the same client with debug on.\<close>

definition node_config :: MCPClientConfig where
  "node_config = \<lparr>command = Some ''node'', args = Some [''./mcp-server/dist/index.js''],
                   env = None, sseUrl = None, timeout = None, debug = None\<rparr>"

definition node_client :: MCPClient where
  "node_client = \<lparr>client = new_Client, transport = None,
                   config = node_config\<lparr>timeout := Some 30000, debug := Some False\<rparr>,
                   connected = False, transportType = stdio\<rparr>"

text \<open>The tool descriptor and the tool response of the specification's scenarios.\<close>

definition echo_schema :: InputSchema where
  "echo_schema = \<lparr>schema_type = ''object'',
                   properties = Some [(''message'', JObject [(''type'', JString ''string'')])],
                   InputSchema.required = Some [''message''], schema_rest = []\<rparr>"

definition echo_tool :: SdkTool where
  "echo_tool = \<lparr>MCPTool.name = ''echo'', MCPTool.description = Some ''Echoes the message'',
                 inputSchema = echo_schema,
                 tool_rest = [(''annotations'', JObject [(''readOnlyHint'', JBool True)])]\<rparr>"

definition answer_block :: ContentBlock where
  \<open>answer_block = \<lparr>type = ''text'', ContentBlock.text = Some ''{"answer":"y"}'', data = None,
                    ContentBlock.mimeType = None, block_rest = []\<rparr>\<close>

definition hi_block :: ContentBlock where
  "hi_block = \<lparr>type = ''text'', ContentBlock.text = Some ''hi'', data = None,
                ContentBlock.mimeType = None, block_rest = []\<rparr>"

definition rag_response :: SdkCallToolResult where
  "rag_response = \<lparr>ToolCallResult.content = [answer_block], isError = Some False, result_rest = []\<rparr>"

definition failed_response :: SdkCallToolResult where
  "failed_response = \<lparr>ToolCallResult.content = [answer_block], isError = Some True, result_rest = []\<rparr>"

definition text_contents :: ResourceContents where
  "text_contents = \<lparr>ResourceContents.uri = ''file:///notes.txt'',
                     ResourceContents.mimeType = Some ''text/plain'',
                     ResourceContents.text = Some ''hello'', blob = None\<rparr>"

definition blob_contents :: ResourceContents where
  "blob_contents = \<lparr>ResourceContents.uri = ''file:///logo.png'',
                     ResourceContents.mimeType = Some ''image/png'',
                     ResourceContents.text = None, blob = Some ''aGk=''\<rparr>"

text \<open>
  A prompt result as the protocol shapes it:
  \<open>{description: "A greeting", messages: [{role: "user", content: {type: "text", text: "hi"}}]}\<close>.
\<close>

definition greeting :: SdkGetPromptResult where
  "greeting = \<lparr>SdkGetPromptResult.description = Some ''A greeting'',
                SdkGetPromptResult.messages =
                  [\<lparr>SdkPromptMessage.role = ''user'',
                    SdkPromptMessage.content = ContentObject hi_block\<rparr>]\<rparr>"

text \<open>A server that answers every request, and servers that reject one.\<close>

definition good_sdk :: Sdk where
  "good_sdk = \<lparr>new_URL = (\<lambda>s. Inr s),
                client_connect = (\<lambda>t. None),
                client_getServerCapabilities =
                  Some \<lparr>sdk_tools = Some (JObject []), sdk_resources = Some (JObject []),
                        sdk_prompts = None\<rparr>,
                client_close = None,
                client_listTools = Inr [echo_tool],
                client_callTool = (\<lambda>n a. Inr (if n = ''rag_query'' then rag_response else failed_response)),
                client_listResources = Inr [],
                client_readResource =
                  (\<lambda>u. Inr (if u = ''file:///notes.txt'' then [text_contents] else [blob_contents])),
                client_listPrompts = Inr [],
                client_getPrompt = (\<lambda>n a. Inr greeting)\<rparr>"

definition connection_closed :: thrown where
  "connection_closed = ErrorObject ''McpError'' ''Connection closed''"

definition refusing_sdk :: Sdk where
  "refusing_sdk = good_sdk\<lparr>client_connect := (\<lambda>t. Some connection_closed)\<rparr>"

definition stuck_sdk :: Sdk where
  "stuck_sdk = good_sdk\<lparr>client_close := Some connection_closed\<rparr>"

text \<open>A server whose resource has a binary entry in front of its text entry.\<close>

definition mixed_sdk :: Sdk where
  "mixed_sdk = good_sdk\<lparr>client_readResource := (\<lambda>u. Inr [blob_contents, text_contents])\<rparr>"

text \<open>The client after a successful \<open>connect\<close>.\<close>

definition node_connected :: MCPClient where
  "node_connected = after (connect good_sdk node_client)"

section \<open>Facts about the concrete clients\<close>

lemma constructor_node_config: "MCPClient_constructor node_config = Inr node_client"
  by (simp add: MCPClient_constructor_def node_config_def node_client_def)

lemma node_client_disconnected: "\<not> isConnected node_client"
  by (simp add: isConnected_def node_client_def)

lemma node_connected_eq:
  "node_connected =
     node_client\<lparr>transport := Some (StdioClientTransport (Some ''node'')
                                     (Some [''./mcp-server/dist/index.js'']) None),
                 connected := True\<rparr>"
  by (simp add: node_connected_def connect_def node_client_def node_config_def
      new_transport_def good_sdk_def)

lemma node_connected_isConnected: "isConnected node_connected"
  by (simp add: node_connected_eq isConnected_def)

section \<open>Construction\<close>

text \<open>
  Claim C2. Construction resolves one transport kind from the config: \<open>sse\<close> when
  \<open>sseUrl\<close> is set, otherwise \<open>stdio\<close> when \<open>command\<close> is set, and the configuration
  error when neither is set. When both are set the first case applies, so \<open>sseUrl\<close> wins.
  An option is set when the source's test \<open>if (config.sseUrl)\<close> passes: it is given and is
  not the empty string.
\<close>

theorem constructor_resolves_transport:
  "(truthy_string (sseUrl cfg) \<longrightarrow>
      (\<exists>c. MCPClient_constructor cfg = Inr c \<and> getTransportType c = sse \<and> \<not> isConnected c))
   \<and> (\<not> truthy_string (sseUrl cfg) \<and> truthy_string (command cfg) \<longrightarrow>
      (\<exists>c. MCPClient_constructor cfg = Inr c \<and> getTransportType c = stdio \<and> \<not> isConnected c))
   \<and> (\<not> truthy_string (sseUrl cfg) \<and> \<not> truthy_string (command cfg) \<longrightarrow>
      MCPClient_constructor cfg = Inl ConfigurationError)"
  by (simp add: MCPClient_constructor_def getTransportType_def isConnected_def Let_def)

text \<open>The four scenarios: only \<open>sseUrl\<close>, only \<open>command\<close>, neither, both.\<close>

theorem constructor_resolves_transport_witness:
  "truthy_string (sseUrl sse_config)
   \<and> (\<exists>c. MCPClient_constructor sse_config = Inr c \<and> getTransportType c = sse)
   \<and> \<not> truthy_string (sseUrl node_config) \<and> truthy_string (command node_config)
   \<and> (\<exists>c. MCPClient_constructor node_config = Inr c \<and> getTransportType c = stdio)
   \<and> \<not> truthy_string (sseUrl empty_config) \<and> \<not> truthy_string (command empty_config)
   \<and> MCPClient_constructor empty_config = Inl ConfigurationError
   \<and> truthy_string (sseUrl both_config) \<and> truthy_string (command both_config)
   \<and> (\<exists>c. MCPClient_constructor both_config = Inr c \<and> getTransportType c = sse)"
  using constructor_resolves_transport [of sse_config]
    constructor_resolves_transport [of node_config]
    constructor_resolves_transport [of empty_config]
    constructor_resolves_transport [of both_config]
  by (auto simp: sse_config_def node_config_def empty_config_def both_config_def)

text \<open>An empty string counts as an option left out.\<close>

lemma constructor_empty_string_unset:
  "MCPClient_constructor (empty_config\<lparr>sseUrl := Some []\<rparr>) = Inl ConfigurationError"
  "\<exists>c. MCPClient_constructor (node_config\<lparr>sseUrl := Some []\<rparr>) = Inr c
        \<and> getTransportType c = stdio"
  by (simp_all add: MCPClient_constructor_def empty_config_def node_config_def
      getTransportType_def)

section \<open>Connecting\<close>

text \<open>
  Claim C4. \<open>connect\<close> on a connected client fails with the already-connected error, makes
  no request and leaves the client as it was: still connected, with the same transport
  type. The capability set lives in the SDK, which is not called.
\<close>

theorem connect_when_connected:
  assumes "isConnected c"
  shows "connect e c = \<lparr>result = Inl AlreadyConnectedError, after = c, effects = []\<rparr>
       \<and> isConnected (after (connect e c))
       \<and> getTransportType (after (connect e c)) = getTransportType c"
  using assms by (simp add: isConnected_def connect_def)

theorem connect_when_connected_witness:
  "isConnected node_connected
   \<and> result (connect good_sdk node_connected) = Inl AlreadyConnectedError
   \<and> after (connect good_sdk node_connected) = node_connected
   \<and> effects (connect good_sdk node_connected) = []"
  using connect_when_connected [OF node_connected_isConnected, of good_sdk]
    node_connected_isConnected
  by simp

text \<open>A rejected handshake and a transport that cannot be built both make \<open>connect\<close> fail.\<close>

lemma connect_rejected:
  assumes "\<not> isConnected c" and "new_transport e c = Inr t"
    and "client_connect e t = Some cause"
  shows "result (connect e c) = Inl (ConnectionError cause)"
  using assms by (simp add: isConnected_def connect_def connect_catch_def)

lemma connect_bad_transport:
  assumes "\<not> isConnected c" and "new_transport e c = Inl cause"
  shows "result (connect e c) = Inl (ConnectionError cause)"
  using assms by (simp add: isConnected_def connect_def connect_catch_def)

lemma connect_refused:
  "result (connect refusing_sdk node_client) = Inl (ConnectionError connection_closed)"
  by (simp add: connect_def connect_catch_def new_transport_def node_client_def
      refusing_sdk_def good_sdk_def)

text \<open>
  Claim C8. When \<open>connect\<close> on a disconnected client fails, the client is disconnected
  afterwards and the caller receives a connection error that wraps the cause.
\<close>

theorem connect_failure:
  assumes "\<not> isConnected c" and "result (connect e c) = Inl err"
  shows "\<not> isConnected (after (connect e c)) \<and> (\<exists>cause. err = ConnectionError cause)"
  using assms
  by (auto simp: isConnected_def connect_def connect_catch_def Let_def
      split: sum.splits option.splits)

theorem connect_failure_witness:
  "\<not> isConnected node_client
   \<and> result (connect refusing_sdk node_client) = Inl (ConnectionError connection_closed)
   \<and> \<not> isConnected (after (connect refusing_sdk node_client))"
  using connect_failure [OF node_client_disconnected connect_refused]
    connect_refused node_client_disconnected
  by simp

section \<open>Disconnecting\<close>

text \<open>
  Claim C9. When the SDK's \<open>close\<close> fails during \<open>disconnect\<close> on a connected client, the
  caller receives an error that wraps the cause, and the client is unchanged: it still
  reports connected.
\<close>

theorem disconnect_close_fails:
  assumes "isConnected c" and "client_close e = Some cause"
  shows "result (disconnect e c) = Inl (DisconnectError cause)
       \<and> isConnected (after (disconnect e c))
       \<and> after (disconnect e c) = c"
  using assms by (simp add: isConnected_def disconnect_def)

theorem disconnect_close_fails_witness:
  "isConnected node_connected \<and> client_close stuck_sdk = Some connection_closed
   \<and> result (disconnect stuck_sdk node_connected) = Inl (DisconnectError connection_closed)
   \<and> isConnected (after (disconnect stuck_sdk node_connected))"
proof -
  have f: "client_close stuck_sdk = Some connection_closed"
    by (simp add: stuck_sdk_def)
  from disconnect_close_fails [OF node_connected_isConnected f] node_connected_isConnected f
  show ?thesis by simp
qed




text \<open>After a \<open>disconnect\<close> that returned, a further one does nothing.\<close>

lemma disconnect_after_success:
  assumes "result (disconnect e1 c) = Inr ()"
  shows "disconnect e2 (after (disconnect e1 c))
         = \<lparr>result = Inr (), after = after (disconnect e1 c), effects = []\<rparr>"
  using assms by (auto simp: disconnect_def split: option.splits if_splits)

section \<open>The typed operations\<close>

text \<open>
  Claim C1. Each of \<open>listTools\<close>, \<open>callTool\<close>, \<open>listResources\<close>, \<open>readResource\<close>,
  \<open>listPrompts\<close> and \<open>getPrompt\<close>, called on a client that is not connected, fails with
  the not-connected error, hands no request to the SDK and leaves the client as it was.
\<close>

theorem operations_need_connection:
  assumes "\<not> isConnected c"
  shows "listTools e c = \<lparr>result = Inl NotConnectedError, after = c, effects = []\<rparr>
       \<and> callTool e nm targs c = \<lparr>result = Inl NotConnectedError, after = c, effects = []\<rparr>
       \<and> listResources e c = \<lparr>result = Inl NotConnectedError, after = c, effects = []\<rparr>
       \<and> readResource e u c = \<lparr>result = Inl NotConnectedError, after = c, effects = []\<rparr>
       \<and> listPrompts e c = \<lparr>result = Inl NotConnectedError, after = c, effects = []\<rparr>
       \<and> getPrompt e pn pargs c = \<lparr>result = Inl NotConnectedError, after = c, effects = []\<rparr>"
  using assms
  by (simp add: isConnected_def ensureConnected_def listTools_def callTool_def
      listResources_def readResource_def listPrompts_def getPrompt_def)

theorem operations_need_connection_witness:
  "\<not> isConnected node_client
   \<and> result (listTools good_sdk node_client) = Inl NotConnectedError
   \<and> effects (listTools good_sdk node_client) = []
   \<and> result (callTool good_sdk ''rag_query'' None node_client) = Inl NotConnectedError
   \<and> effects (callTool good_sdk ''rag_query'' None node_client) = []
   \<and> result (listResources good_sdk node_client) = Inl NotConnectedError
   \<and> result (readResource good_sdk ''file:///notes.txt'' node_client) = Inl NotConnectedError
   \<and> result (listPrompts good_sdk node_client) = Inl NotConnectedError
   \<and> result (getPrompt good_sdk ''greet'' None node_client) = Inl NotConnectedError"
  using operations_need_connection [OF node_client_disconnected, of good_sdk "''rag_query''" None
      "''file:///notes.txt''" "''greet''" None]
    node_client_disconnected
  by simp

text \<open>
  Claim C5. On a connected client, whatever response the SDK returns for \<open>callTool\<close>, the
  operation returns a result with the content blocks and the \<open>isError\<close> flag of that
  response, unchanged. This holds for every value of the flag: a response with
  \<open>isError\<close> true is returned, not raised.
\<close>

theorem callTool_passes_through:
  assumes "isConnected c" and "client_callTool e nm (or_empty targs) = Inr response"
  shows "\<exists>r. result (callTool e nm targs c) = Inr r
           \<and> ToolCallResult.content r = ToolCallResult.content response
           \<and> isError r = isError response"
  using assms by (simp add: isConnected_def ensureConnected_def callTool_def Let_def)

text \<open>
  The scenario of the specification: the text block holds the JSON string as sent. A
  second call meets a response with \<open>isError\<close> true.
\<close>

theorem callTool_passes_through_witness:
  \<open>isConnected node_connected
   \<and> result (callTool good_sdk ''rag_query'' (Some [(''query'', JString ''x''), (''topK'', JNumber 5)])
               node_connected)
       = Inr \<lparr>ToolCallResult.content =
                [\<lparr>type = ''text'', ContentBlock.text = Some ''{"answer":"y"}'', data = None,
                  ContentBlock.mimeType = None, block_rest = []\<rparr>],
              isError = Some False\<rparr>
   \<and> (\<exists>r. result (callTool good_sdk ''fail'' None node_connected) = Inr r \<and> isError r = Some True)\<close>
proof -
  have a: "client_callTool good_sdk ''rag_query''
             (or_empty (Some [(''query'', JString ''x''), (''topK'', JNumber 5)])) = Inr rag_response"
    by (simp add: good_sdk_def)
  have b: "client_callTool good_sdk ''fail'' (or_empty None) = Inr failed_response"
    by (simp add: good_sdk_def)
  from callTool_passes_through [OF node_connected_isConnected a]
    callTool_passes_through [OF node_connected_isConnected b]
    node_connected_isConnected
  show ?thesis
    by (auto simp: rag_response_def failed_response_def answer_block_def)
qed

text \<open>
  Claim C6. On a connected client, \<open>listTools\<close> returns one descriptor for each descriptor
  the SDK returned, in the same order, with the same name, description and input
  schema, and so with the same \<open>type\<close>, \<open>properties\<close> and \<open>required\<close> of the schema.
\<close>

theorem listTools_roundtrip:
  assumes "isConnected c" and "client_listTools e = Inr sent"
  shows "\<exists>got. result (listTools e c) = Inr got
           \<and> list_all2 (\<lambda>g s. MCPTool.name g = MCPTool.name s
                            \<and> MCPTool.description g = MCPTool.description s
                            \<and> inputSchema g = inputSchema s
                            \<and> schema_type (inputSchema g) = schema_type (inputSchema s)
                            \<and> properties (inputSchema g) = properties (inputSchema s)
                            \<and> InputSchema.required (inputSchema g) = InputSchema.required (inputSchema s))
                 got sent"
  using assms
  by (simp add: isConnected_def ensureConnected_def listTools_def list_all2_map1 list_all2_same)

text \<open>The \<open>echo\<close> descriptor of the specification comes back field by field.\<close>

theorem listTools_roundtrip_witness:
  "isConnected node_connected \<and> client_listTools good_sdk = Inr [echo_tool]
   \<and> result (listTools good_sdk node_connected)
       = Inr [\<lparr>MCPTool.name = ''echo'', MCPTool.description = Some ''Echoes the message'',
                inputSchema = \<lparr>schema_type = ''object'',
                   properties = Some [(''message'', JObject [(''type'', JString ''string'')])],
                   InputSchema.required = Some [''message''], schema_rest = []\<rparr>\<rparr>]"
proof -
  have s: "client_listTools good_sdk = Inr [echo_tool]"
    by (simp add: good_sdk_def)
  from listTools_roundtrip [OF node_connected_isConnected s] obtain got where
    g: "result (listTools good_sdk node_connected) = Inr got" and
    l: "list_all2 (\<lambda>g s. MCPTool.name g = MCPTool.name s
                            \<and> MCPTool.description g = MCPTool.description s
                            \<and> inputSchema g = inputSchema s
                            \<and> schema_type (inputSchema g) = schema_type (inputSchema s)
                            \<and> properties (inputSchema g) = properties (inputSchema s)
                            \<and> InputSchema.required (inputSchema g) = InputSchema.required (inputSchema s))
                 got [echo_tool]"
    by blast
  from l obtain t where "got = [t]" and "MCPTool.name t = ''echo''"
    and "MCPTool.description t = Some ''Echoes the message''" and "inputSchema t = echo_schema"
    by (auto simp: list_all2_Cons2 echo_tool_def)
  then have "got = [\<lparr>MCPTool.name = ''echo'', MCPTool.description = Some ''Echoes the message'',
                inputSchema = echo_schema\<rparr>]"
    by (cases t) simp
  with g s node_connected_isConnected show ?thesis
    by (simp add: echo_schema_def)
qed

text \<open>
  Claim C7, as stated, fails: the server returns a binary entry followed by a text
  entry, so the returned content has a textual representation, and \<open>readResource\<close> still
  fails with the unsupported-content error.
\<close>

theorem readResource_counterexample:
  "client_readResource mixed_sdk ''file:///notes.txt'' = Inr [blob_contents, text_contents]
   \<and> ResourceContents.text text_contents = Some ''hello''
   \<and> result (readResource mixed_sdk ''file:///notes.txt'' node_connected)
       = Inl UnsupportedContentError"
  by (simp add: readResource_def ensureConnected_def node_connected_eq mixed_sdk_def
      blob_contents_def text_contents_def)

text \<open>
  Claim C7, amended. On a connected client, when the SDK returns contents for
  \<open>readResource\<close>, the operation decides on the first entry alone: it returns that
  entry's text when the entry has one, and fails with the unsupported-content error
  when the entry has none or when there is no entry. Later entries are not looked at.
\<close>

theorem readResource_text_or_unsupported:
  assumes "isConnected c" and "client_readResource e u = Inr contents"
  shows "(\<forall>t. (\<exists>x xs. contents = x # xs \<and> ResourceContents.text x = Some t)
              \<longrightarrow> result (readResource e u c) = Inr t)
       \<and> (contents = [] \<or> (\<exists>x xs. contents = x # xs \<and> ResourceContents.text x = None)
              \<longrightarrow> result (readResource e u c) = Inl UnsupportedContentError)"
  using assms
  by (auto simp: isConnected_def ensureConnected_def readResource_def)

theorem readResource_text_or_unsupported_witness:
  "isConnected node_connected
   \<and> client_readResource good_sdk ''file:///notes.txt'' = Inr [text_contents]
   \<and> ResourceContents.text text_contents = Some ''hello''
   \<and> result (readResource good_sdk ''file:///notes.txt'' node_connected) = Inr ''hello''
   \<and> client_readResource good_sdk ''file:///logo.png'' = Inr [blob_contents]
   \<and> ResourceContents.text blob_contents = None
   \<and> result (readResource good_sdk ''file:///logo.png'' node_connected) = Inl UnsupportedContentError"
proof -
  have a: "client_readResource good_sdk ''file:///notes.txt'' = Inr [text_contents]"
    and b: "client_readResource good_sdk ''file:///logo.png'' = Inr [blob_contents]"
    by (simp_all add: good_sdk_def)
  have ta: "ResourceContents.text text_contents = Some ''hello''"
    and tb: "ResourceContents.text blob_contents = None"
    by (simp_all add: text_contents_def blob_contents_def)
  from readResource_text_or_unsupported [OF node_connected_isConnected a]
    readResource_text_or_unsupported [OF node_connected_isConnected b]
    a b ta tb node_connected_isConnected
  show ?thesis by simp
qed

text \<open>Of two text entries the first alone is returned.\<close>

lemma readResource_second_text_dropped:
  assumes "isConnected c"
    and "client_readResource e u = Inr [x, y]" and "ResourceContents.text x = Some t"
  shows "result (readResource e u c) = Inr t"
  using assms by (simp add: isConnected_def ensureConnected_def readResource_def)

section \<open>Prompt content\<close>

text \<open>
  On the two shapes the source's expression has a branch for, its result (every block
  mapped to its text or to the empty string, then joined) is the flattening.
\<close>

lemma block_text_map_filter:
  "concat (map block_text cs) = concat (List.map_filter ContentBlock.text cs)"
proof (induction cs)
  case Nil
  show ?case by (simp add: List.map_filter_simps)
next
  case (Cons c cs)
  show ?case
  proof (cases "ContentBlock.text c")
    case None
    with Cons show ?thesis by (simp add: block_text_def List.map_filter_simps)
  next
    case (Some t)
    with Cons show ?thesis by (simp add: block_text_def List.map_filter_simps)
  qed
qed

lemma message_content_string_or_array:
  "message_content (ContentString s) = Inr (flattened (ContentString s))"
  "message_content (ContentArray cs) = Inr (flattened (ContentArray cs))"
  by (simp_all add: block_text_map_filter)

text \<open>The only throw of the mapping is the \<open>TypeError\<close> of a content-block object.\<close>

lemma message_content_cases:
  "message_content m = (case m of ContentObject b \<Rightarrow> Inl map_is_not_a_function
                                 | _ \<Rightarrow> Inr (flattened m))"
  by (cases m) (simp_all add: block_text_map_filter)

lemma map_messages_no_object:
  assumes "\<forall>msg \<in> set ms. \<forall>b. SdkPromptMessage.content msg \<noteq> ContentObject b"
  shows "map_messages ms
         = Inr (map (\<lambda>msg. \<lparr>PromptMessage.role = SdkPromptMessage.role msg,
                            PromptMessage.content = flattened (SdkPromptMessage.content msg)\<rparr>) ms)"
  using assms
proof (induction ms)
  case Nil
  show ?case by simp
next
  case (Cons msg ms)
  then show ?case
    by (cases "SdkPromptMessage.content msg") (simp_all add: block_text_map_filter)
qed

lemma map_messages_object:
  assumes "\<exists>msg \<in> set ms. \<exists>b. SdkPromptMessage.content msg = ContentObject b"
  shows "map_messages ms = Inl map_is_not_a_function"
  using assms
proof (induction ms)
  case Nil
  then show ?case by simp
next
  case (Cons msg ms)
  show ?case
  proof (cases "SdkPromptMessage.content msg")
    case (ContentObject b)
    then show ?thesis by simp
  next
    case (ContentString s)
    with Cons show ?thesis by auto
  next
    case (ContentArray cs)
    with Cons show ?thesis by auto
  qed
qed

text \<open>
  So \<open>getPrompt\<close> throws on every response that holds a message shaped as the protocol
  shapes it, and returns flattened contents only where no message is so shaped.
\<close>

lemma getPrompt_object_content_throws:
  assumes "isConnected c" and "client_getPrompt e pn (or_empty pargs) = Inr response"
    and "\<exists>msg \<in> set (SdkGetPromptResult.messages response).
           \<exists>b. SdkPromptMessage.content msg = ContentObject b"
  shows "result (getPrompt e pn pargs c) = Inl map_is_not_a_function"
  using assms(1,2) map_messages_object [OF assms(3)]
  by (simp add: isConnected_def ensureConnected_def getPrompt_def Let_def)

lemma getPrompt_string_or_array:
  assumes "isConnected c" and "client_getPrompt e pn (or_empty pargs) = Inr response"
    and "\<forall>msg \<in> set (SdkGetPromptResult.messages response).
           \<forall>b. SdkPromptMessage.content msg \<noteq> ContentObject b"
  shows "\<exists>r. result (getPrompt e pn pargs c) = Inr r
           \<and> map PromptMessage.content (PromptResult.messages r)
               = map (\<lambda>msg. flattened (SdkPromptMessage.content msg))
                     (SdkGetPromptResult.messages response)"
  using assms(1,2) map_messages_no_object [OF assms(3)]
  by (simp add: isConnected_def ensureConnected_def getPrompt_def Let_def comp_def)

text \<open>
  Claim C10. Every returned message's content should be one string, the flattening of
  what the server sent. For the response with the single message
  \<open>{role: "user", content: {type: "text", text: "hi"}}\<close> the flattening is \<open>hi\<close>; the
  source returns no message at all and throws
  \<open>TypeError: msg.content.map is not a function\<close> on the connected client.
\<close>

theorem getPrompt_single_block_throws:
  "client_getPrompt good_sdk ''greet'' (or_empty None) = Inr greeting
   \<and> map SdkPromptMessage.content (SdkGetPromptResult.messages greeting) = [ContentObject hi_block]
   \<and> flattened (ContentObject hi_block) = ''hi''
   \<and> result (getPrompt good_sdk ''greet'' None node_connected)
       = Inl (ErrorObject ''TypeError'' ''msg.content.map is not a function'')"
  by (simp add: getPrompt_def ensureConnected_def node_connected_eq good_sdk_def greeting_def
      hi_block_def map_is_not_a_function_def List.map_filter_simps)

end
